theory Spec2Isabelle
  imports Main
begin

section \<open>Strings and the regular expressions of the source\<close>

text \<open>
  JavaScript strings are modelled as \<^typ>\<open>string\<close>: the strings whose code units are
  below 256 (Latin-1). The character classes are those of the regular expressions in
  the source on these code units: \<open>\d\<close> is the ten ASCII digits, \<open>\s\<close> is tab, line
  feed, vertical tab, form feed, carriage return, space and the no-break space;
  \<open>toLowerCase\<close> lowers the ASCII capitals and the Latin-1 capitals.
\<close>

definition isDigit :: "char \<Rightarrow> bool" where
  "isDigit c = (c \<in> set ''0123456789'')"

definition isSpace :: "char \<Rightarrow> bool" where
  "isSpace c = (c \<in> set [CHR 0x09, CHR 0x0A, CHR 0x0B, CHR 0x0C, CHR 0x0D, CHR '' '', CHR 0xA0])"

definition isAlpha :: "char \<Rightarrow> bool" where
  "isAlpha c = (c \<in> set ''abcdefghijklmnopqrstuvwxyzABCDEFGHIJKLMNOPQRSTUVWXYZ'')"

definition isIdentChar :: "char \<Rightarrow> bool" where
  \<comment> \<open>the class \<open>[a-zA-Z0-9_-]\<close>\<close>
  "isIdentChar c = (isAlpha c \<or> isDigit c \<or> c = CHR ''_'' \<or> c = CHR ''-'')"

definition lowerChar :: "char \<Rightarrow> char" where
  \<comment> \<open>the capitals \<open>A\<close> to \<open>Z\<close> and the code units 0xC0 to 0xDE without 0xD7, each paired
      with its lower-case form, which is the capital plus 0x20\<close>
  "lowerChar c =
     (case map_of (zip
             (''ABCDEFGHIJKLMNOPQRSTUVWXYZ'' @
              [CHR 0xC0, CHR 0xC1, CHR 0xC2, CHR 0xC3, CHR 0xC4, CHR 0xC5, CHR 0xC6, CHR 0xC7,
               CHR 0xC8, CHR 0xC9, CHR 0xCA, CHR 0xCB, CHR 0xCC, CHR 0xCD, CHR 0xCE, CHR 0xCF,
               CHR 0xD0, CHR 0xD1, CHR 0xD2, CHR 0xD3, CHR 0xD4, CHR 0xD5, CHR 0xD6,
               CHR 0xD8, CHR 0xD9, CHR 0xDA, CHR 0xDB, CHR 0xDC, CHR 0xDD, CHR 0xDE])
             (''abcdefghijklmnopqrstuvwxyz'' @
              [CHR 0xE0, CHR 0xE1, CHR 0xE2, CHR 0xE3, CHR 0xE4, CHR 0xE5, CHR 0xE6, CHR 0xE7,
               CHR 0xE8, CHR 0xE9, CHR 0xEA, CHR 0xEB, CHR 0xEC, CHR 0xED, CHR 0xEE, CHR 0xEF,
               CHR 0xF0, CHR 0xF1, CHR 0xF2, CHR 0xF3, CHR 0xF4, CHR 0xF5, CHR 0xF6,
               CHR 0xF8, CHR 0xF9, CHR 0xFA, CHR 0xFB, CHR 0xFC, CHR 0xFD, CHR 0xFE])) c of
        Some l \<Rightarrow> l
      | None \<Rightarrow> c)"

definition toLowerCase :: "string \<Rightarrow> string" where
  "toLowerCase s = map lowerChar s"

definition trimStart :: "string \<Rightarrow> string" where
  "trimStart s = dropWhile isSpace s"

definition trim :: "string \<Rightarrow> string" where
  "trim s = rev (dropWhile isSpace (rev (dropWhile isSpace s)))"

section \<open>Numbers\<close>

text \<open>
  A JavaScript number is a double. The numbers of this program are read from digit
  strings by \<open>parseInt\<close>, so they are integers rounded to the nearest double (ties to
  even), an infinity when the integer is beyond the largest double, or \<open>NaN\<close>.
\<close>

datatype number = NaN | Finite int | PosInfinity | NegInfinity

definition digitVal :: "char \<Rightarrow> nat" where
  "digitVal c = of_char c - 48"

definition natOfDigits :: "string \<Rightarrow> nat" where
  \<comment> \<open>the mathematical integer that a string of decimal digits denotes\<close>
  "natOfDigits ds = foldl (\<lambda>a c. 10 * a + digitVal c) 0 ds"

fun bitLength :: "nat \<Rightarrow> nat" where
  \<comment> \<open>the number of binary digits\<close>
  "bitLength n = (if n = 0 then 0 else Suc (bitLength (n div 2)))"

declare bitLength.simps [simp del]

definition roundToDouble :: "nat \<Rightarrow> nat option" where
  \<comment> \<open>the double nearest to a natural number, ties to the even significand of 53 bits;
      \<open>None\<close> when the result is beyond the largest double, \<open>(2^53 - 1) * 2^971\<close>\<close>
  "roundToDouble n =
     (if bitLength n \<le> 53 then Some n
      else
        let sh = bitLength n - 53;
            q = n div 2 ^ sh;
            r = n mod 2 ^ sh;
            q' = (if 2 * r > 2 ^ sh \<or> (2 * r = 2 ^ sh \<and> odd q) then q + 1 else q);
            v = q' * 2 ^ sh
        in if v \<ge> 2 ^ 1024 then None else Some v)"

definition numberOfDigits :: "string \<Rightarrow> number" where
  \<comment> \<open>\<open>parseInt(ds, 10)\<close> for a non-empty string of digits\<close>
  "numberOfDigits ds =
     (case roundToDouble (natOfDigits ds) of
        Some v \<Rightarrow> Finite (int v)
      | None \<Rightarrow> PosInfinity)"

definition negate :: "number \<Rightarrow> number" where
  "negate x =
     (case x of
        NaN \<Rightarrow> NaN
      | Finite i \<Rightarrow> Finite (- i)
      | PosInfinity \<Rightarrow> NegInfinity
      | NegInfinity \<Rightarrow> PosInfinity)"

definition parseInt :: "string \<Rightarrow> number" where
  \<comment> \<open>\<open>parseInt(s, 10)\<close>: leading white space, an optional sign, the longest run of digits\<close>
  "parseInt s =
     (let t = trimStart s;
          neg = (t \<noteq> [] \<and> hd t = CHR ''-'');
          u = (if t \<noteq> [] \<and> (hd t = CHR ''-'' \<or> hd t = CHR ''+'') then tl t else t);
          ds = takeWhile isDigit u
      in if ds = [] then NaN
         else if neg then negate (numberOfDigits ds) else numberOfDigits ds)"

definition isNaN :: "number \<Rightarrow> bool" where
  "isNaN x = (x = NaN)"

definition lessEqZero :: "number \<Rightarrow> bool" where
  \<comment> \<open>\<open>x <= 0\<close>, which is false for \<open>NaN\<close>\<close>
  "lessEqZero x =
     (case x of
        NaN \<Rightarrow> False
      | Finite i \<Rightarrow> i \<le> 0
      | PosInfinity \<Rightarrow> False
      | NegInfinity \<Rightarrow> True)"

definition padStart2 :: "string \<Rightarrow> string" where
  \<comment> \<open>\<open>s.padStart(2, '0')\<close>\<close>
  "padStart2 s = replicate (2 - length s) CHR ''0'' @ s"

fun splitOn :: "char \<Rightarrow> string \<Rightarrow> string list" where
  \<comment> \<open>\<open>s.split(c)\<close> for a one-character separator: always at least one piece\<close>
  "splitOn c [] = [[]]"
| "splitOn c (x # xs) =
     (if x = c then [] # splitOn c xs
      else (case splitOn c xs of p # ps \<Rightarrow> (x # p) # ps | [] \<Rightarrow> [[x]]))"

fun joinWith :: "string \<Rightarrow> string list \<Rightarrow> string" where
  \<comment> \<open>\<open>parts.join(sep)\<close>\<close>
  "joinWith sep [] = []"
| "joinWith sep [p] = p"
| "joinWith sep (p # q # ps) = p @ sep @ joinWith sep (q # ps)"

section \<open>Errors\<close>

text \<open>
  The source raises one error class, \<open>ParseError\<close>, with a message. Each message of the
  source is a constructor here; a function that can raise returns \<open>parse_error + 'a\<close>.
\<close>

datatype parse_error =
    InputEmpty                      \<comment> \<open>tokenize: Input cannot be empty\<close>
  | DescriptionEmpty                \<comment> \<open>parse: Task description cannot be empty\<close>
  | TitleRequired                   \<comment> \<open>parse: Task title is required\<close>
  | InvalidTimeFormat string
  | InvalidHour nat
  | InvalidMinute nat
  | InvalidTimeWindowFormat string
  | InvalidDate string
  | ExpectedAfterEvery
  | ExpectedAfterAfter
  | IntervalNotPositive string
  | InvalidRecurrence string
  | InvalidDependency string
  | DependencyRequired
  | InvalidTimestamp string
  | InvalidDuration string

section \<open>Time-window grammar\<close>

record clock =
  hour :: nat
  minute :: nat

record TimeWindow =
  start :: string
  end' :: string

definition matchClock :: "string \<Rightarrow> (string \<times> string \<times> string) option" where
  \<comment> \<open>the prefix pattern \<open>(\d{1,2}):(\d{2})\<close>: the two groups and what follows the match\<close>
  "matchClock s =
     (let h = takeWhile isDigit s; r = dropWhile isDigit s
      in if (length h = 1 \<or> length h = 2) \<and> r \<noteq> [] \<and> hd r = CHR '':''
            \<and> length (tl r) \<ge> 2 \<and> isDigit (tl r ! 0) \<and> isDigit (tl r ! 1)
         then Some (h, take 2 (tl r), drop 2 (tl r))
         else None)"

definition parseTime :: "string \<Rightarrow> parse_error + clock" where
  \<comment> \<open>the hour and the minute have at most two digits, which \<open>parseInt\<close> reads exactly\<close>
  "parseTime timeStr =
     (case matchClock timeStr of
        Some (h, m, []) \<Rightarrow>
          (let hr = natOfDigits h; mi = natOfDigits m
           in if hr > 23 then Inl (InvalidHour hr)
              else if mi > 59 then Inl (InvalidMinute mi)
              else Inr \<lparr>hour = hr, minute = mi\<rparr>)
      | _ \<Rightarrow> Inl (InvalidTimeFormat timeStr))"

definition normalizeTime :: "string \<Rightarrow> string" where
  \<comment> \<open>two-digit hour: \<open>parts[0].padStart(2, '0') + ':' + parts[1]\<close>\<close>
  "normalizeTime t =
     (case splitOn CHR '':'' t of
        h # m # _ \<Rightarrow> padStart2 h @ '':'' @ m
      | [h] \<Rightarrow> padStart2 h @ '':undefined''
      | [] \<Rightarrow> '':undefined'')"

definition matchWindow :: "string \<Rightarrow> (string \<times> string \<times> string) option" where
  \<comment> \<open>the prefix pattern \<open>(\d{1,2}:\d{2})-(\d{1,2}:\d{2})\<close>: the two groups and the rest\<close>
  "matchWindow s =
     (case matchClock s of
        Some (h1, m1, r1) \<Rightarrow>
          (if r1 \<noteq> [] \<and> hd r1 = CHR ''-'' then
             (case matchClock (tl r1) of
                Some (h2, m2, r2) \<Rightarrow> Some (h1 @ '':'' @ m1, h2 @ '':'' @ m2, r2)
              | None \<Rightarrow> None)
           else None)
      | None \<Rightarrow> None)"

definition parseTimeWindow :: "string \<Rightarrow> parse_error + TimeWindow" where
  "parseTimeWindow input =
     (case matchWindow (trim input) of
        Some (startStr, endStr, []) \<Rightarrow>
          (case parseTime startStr of
             Inl e \<Rightarrow> Inl e
           | Inr _ \<Rightarrow>
               (case parseTime endStr of
                  Inl e \<Rightarrow> Inl e
                | Inr _ \<Rightarrow> Inr \<lparr>start = normalizeTime startStr, end' = normalizeTime endStr\<rparr>))
      | _ \<Rightarrow> Inl (InvalidTimeWindowFormat input))"

definition crossesMidnight :: "TimeWindow \<Rightarrow> parse_error + bool" where
  "crossesMidnight w =
     (case parseTime (start w) of
        Inl e \<Rightarrow> Inl e
      | Inr s \<Rightarrow>
          (case parseTime (end' w) of
             Inl e \<Rightarrow> Inl e
           | Inr e \<Rightarrow>
               (let startMinutes = hour s * 60 + minute s;
                    endMinutes = hour e * 60 + minute e
                in Inr (endMinutes \<le> startMinutes))))"

definition isTimeInWindow :: "string \<Rightarrow> TimeWindow \<Rightarrow> parse_error + bool" where
  "isTimeInWindow timeStr w =
     (case parseTime timeStr of
        Inl e \<Rightarrow> Inl e
      | Inr t \<Rightarrow>
          (case parseTime (start w) of
             Inl e \<Rightarrow> Inl e
           | Inr s \<Rightarrow>
               (case parseTime (end' w) of
                  Inl e \<Rightarrow> Inl e
                | Inr e \<Rightarrow>
                    (let timeMinutes = hour t * 60 + minute t;
                         startMinutes = hour s * 60 + minute s;
                         endMinutes = hour e * 60 + minute e
                     in case crossesMidnight w of
                          Inl err \<Rightarrow> Inl err
                        | Inr True \<Rightarrow>
                            Inr (timeMinutes \<ge> startMinutes \<or> timeMinutes < endMinutes)
                        | Inr False \<Rightarrow>
                            Inr (timeMinutes \<ge> startMinutes \<and> timeMinutes < endMinutes)))))"

section \<open>Dates\<close>

text \<open>
  A JavaScript \<open>Date\<close> holds a time value: a number of milliseconds since
  1970-01-01T00:00 UTC of magnitude at most 8640000000000000, or \<open>NaN\<close>, the Invalid Date.
  The local-time methods of the source are modelled by the abstract operations of the
  language standard (\<open>Day\<close>, \<open>WeekDay\<close>, \<open>DayFromYear\<close>, \<open>YearFromTime\<close>,
  \<open>MonthFromTime\<close>, \<open>DateFromTime\<close>, \<open>MakeDay\<close>, \<open>MakeTime\<close>, \<open>MakeDate\<close>, \<open>LocalTime\<close>,
  \<open>UTC\<close>, \<open>TimeClip\<close>). The time zone of the host is a parameter \<open>z\<close> of every function
  that uses local time: \<open>z t True\<close> is the offset of local time at the UTC time value
  \<open>t\<close>, and \<open>z t False\<close> is the offset by which the local time value \<open>t\<close> is read (for a
  local time that a transition skips or repeats, the offset before the transition).
  The time values of valid dates are integers below \<open>2^53\<close>, on which the arithmetic of
  doubles is exact. A method that returns \<open>NaN\<close> on the Invalid Date returns \<open>None\<close>.
  Where the source calls \<open>new Date()\<close>, the function of the model takes the reading of
  the wall clock as its parameter \<open>now\<close>.
\<close>

datatype date = Invalid_Date | Date (timeValue: int)

type_synonym zone = "int \<Rightarrow> bool \<Rightarrow> int"

definition msPerDay :: int where "msPerDay = 86400000"
definition msPerHour :: int where "msPerHour = 3600000"
definition msPerMinute :: int where "msPerMinute = 60000"
definition msPerSecond :: int where "msPerSecond = 1000"

definition LocalTime :: "zone \<Rightarrow> int \<Rightarrow> int" where
  "LocalTime z t = t + z t True"

definition UTC :: "zone \<Rightarrow> int \<Rightarrow> int" where
  "UTC z t = t - z t False"

definition TimeClip :: "int \<Rightarrow> date" where
  "TimeClip t = (if \<bar>t\<bar> > 8640000000000000 then Invalid_Date else Date t)"

definition Day :: "int \<Rightarrow> int" where
  "Day t = t div msPerDay"

definition TimeWithinDay :: "int \<Rightarrow> int" where
  "TimeWithinDay t = t mod msPerDay"

definition WeekDay :: "int \<Rightarrow> int" where
  "WeekDay t = (Day t + 4) mod 7"

definition DayFromYear :: "int \<Rightarrow> int" where
  "DayFromYear y =
     365 * (y - 1970) + (y - 1969) div 4 - (y - 1901) div 100 + (y - 1601) div 400"

definition isLeapYear :: "int \<Rightarrow> bool" where
  "isLeapYear y = ((y mod 4 = 0 \<and> y mod 100 \<noteq> 0) \<or> y mod 400 = 0)"

text \<open>The length of a year, needed for the termination of the search for the year.\<close>

lemma div_succ:
  assumes k: "0 < (k::int)"
  shows "(x + 1) div k = x div k + (if k dvd (x + 1) then 1 else 0)"
proof -
  define q r where "q = x div k" and "r = x mod k"
  have x: "x = k * q + r" by (simp add: q_def r_def)
  have r: "0 \<le> r" "r < k" using k by (simp_all add: r_def)
  show ?thesis
  proof (cases "r + 1 = k")
    case True
    then have e: "x + 1 = k * (q + 1)" using x by (simp add: algebra_simps)
    have "(k * (q + 1)) div k = q + 1" using k by simp
    then show ?thesis unfolding e using k by (simp add: q_def)
  next
    case False
    then have lt: "r + 1 < k" using r by simp
    have e: "x + 1 = (r + 1) + q * k" using x by (simp add: algebra_simps)
    have d: "(x + 1) div k = q" unfolding e using r lt k by (simp add: div_pos_pos_trivial)
    have m: "(x + 1) mod k = r + 1" unfolding e using r lt k by (simp add: mod_pos_pos_trivial)
    have "\<not> k dvd (x + 1)" using m r lt by (auto simp: dvd_eq_mod_eq_0)
    then show ?thesis using d by (simp add: q_def)
  qed
qed

lemma dvd_shift: "(k::int) dvd c \<Longrightarrow> k dvd (y - c) \<longleftrightarrow> k dvd y"
  by (rule dvd_diff_left_iff)

lemma DayFromYear_step:
  "DayFromYear (y + 1) = DayFromYear y + (if isLeapYear y then 366 else 365)"
proof -
  have a: "(y + 1 - 1969) div 4 = (y - 1969) div 4 + (if 4 dvd y then 1 else 0)"
    using div_succ [of 4 "y - 1969"] dvd_shift [of 4 1968 y] by (simp add: algebra_simps)
  have b: "(y + 1 - 1901) div 100 = (y - 1901) div 100 + (if 100 dvd y then 1 else 0)"
    using div_succ [of 100 "y - 1901"] dvd_shift [of 100 1900 y] by (simp add: algebra_simps)
  have c: "(y + 1 - 1601) div 400 = (y - 1601) div 400 + (if 400 dvd y then 1 else 0)"
    using div_succ [of 400 "y - 1601"] dvd_shift [of 400 1600 y] by (simp add: algebra_simps)
  have d1: "400 dvd y \<Longrightarrow> 100 dvd y" by (rule dvd_trans [of 100 400 y]) simp_all
  have d2: "100 dvd y \<Longrightarrow> 4 dvd y" by (rule dvd_trans [of 4 100 y]) simp_all
  show ?thesis
    unfolding DayFromYear_def isLeapYear_def a b c
    using d1 d2 by (auto simp: mod_eq_0_iff_dvd)
qed

lemma DayFromYear_pred:
  "DayFromYear (y - 1) = DayFromYear y - (if isLeapYear (y - 1) then 366 else 365)"
  using DayFromYear_step [of "y - 1"] by simp

lemma DayFromYear_less_succ: "DayFromYear y < DayFromYear (y + 1)"
  by (simp add: DayFromYear_step)

lemma DayFromYear_mono_nat: "DayFromYear y \<le> DayFromYear (y + int k)"
proof (induction k)
  case 0
  show ?case by simp
next
  case (Suc k)
  have "DayFromYear (y + int k) < DayFromYear (y + int k + 1)" by (rule DayFromYear_less_succ)
  then have "DayFromYear y \<le> DayFromYear (y + int k + 1)" using Suc by linarith
  moreover have "y + int (Suc k) = y + int k + 1" by simp
  ultimately show ?case by (simp only:)
qed

lemma DayFromYear_mono: "a \<le> b \<Longrightarrow> DayFromYear a \<le> DayFromYear b"
  using DayFromYear_mono_nat [of a "nat (b - a)"] by simp

lemma DayFromYear_strict: "a < b \<Longrightarrow> DayFromYear a < DayFromYear b"
  using DayFromYear_mono [of "a + 1" b] DayFromYear_less_succ [of a] by simp

function yearOfDay :: "int \<Rightarrow> int \<Rightarrow> int" where
  \<comment> \<open>the year \<open>y\<close> with \<open>DayFromYear y \<le> n < DayFromYear (y + 1)\<close>, searched from a guess\<close>
  "yearOfDay n y =
     (if n < DayFromYear y then yearOfDay n (y - 1)
      else if DayFromYear (y + 1) \<le> n then yearOfDay n (y + 1)
      else y)"
  by pat_completeness auto
termination
proof (relation "measure (\<lambda>(n, y). nat (if n < DayFromYear y then DayFromYear y - n + 400
                                        else n - DayFromYear y))")
  show "wf (measure (\<lambda>(n, y). nat (if n < DayFromYear y then DayFromYear y - n + 400
                                        else n - DayFromYear y)))" by simp
next
  fix n y :: int
  assume "n < DayFromYear y"
  then show "((n, y - 1), (n, y)) \<in> measure (\<lambda>(n, y). nat (if n < DayFromYear y then DayFromYear y - n + 400
                                        else n - DayFromYear y))"
    by (simp add: DayFromYear_pred split: if_splits)
next
  fix n y :: int
  assume "\<not> n < DayFromYear y" "DayFromYear (y + 1) \<le> n"
  then show "((n, y + 1), (n, y)) \<in> measure (\<lambda>(n, y). nat (if n < DayFromYear y then DayFromYear y - n + 400
                                        else n - DayFromYear y))"
    by (simp add: DayFromYear_step split: if_splits)
qed

definition YearFromTime :: "int \<Rightarrow> int" where
  "YearFromTime t = yearOfDay (Day t) (1970 + Day t div 365)"

definition DayWithinYear :: "int \<Rightarrow> int" where
  "DayWithinYear t = Day t - DayFromYear (YearFromTime t)"

definition monthStart :: "bool \<Rightarrow> int \<Rightarrow> int" where
  \<comment> \<open>days of the year before month \<open>m\<close> (0 is January)\<close>
  "monthStart leap m =
     [0, 31, 59, 90, 120, 151, 181, 212, 243, 273, 304, 334] ! nat m
       + (if leap \<and> 2 \<le> m then 1 else 0)"

definition MonthFromTime :: "int \<Rightarrow> int" where
  "MonthFromTime t =
     (let d = DayWithinYear t; l = (if isLeapYear (YearFromTime t) then 1 else 0)
      in if d < 31 then 0
         else if d < 59 + l then 1
         else if d < 90 + l then 2
         else if d < 120 + l then 3
         else if d < 151 + l then 4
         else if d < 181 + l then 5
         else if d < 212 + l then 6
         else if d < 243 + l then 7
         else if d < 273 + l then 8
         else if d < 304 + l then 9
         else if d < 334 + l then 10
         else 11)"

definition DateFromTime :: "int \<Rightarrow> int" where
  "DateFromTime t =
     DayWithinYear t - monthStart (isLeapYear (YearFromTime t)) (MonthFromTime t) + 1"

definition MakeDay :: "int \<Rightarrow> int \<Rightarrow> int \<Rightarrow> int" where
  "MakeDay y m dt =
     (let ym = y + m div 12; mn = m mod 12
      in DayFromYear ym + monthStart (isLeapYear ym) mn + dt - 1)"

definition MakeTime :: "int \<Rightarrow> int \<Rightarrow> int \<Rightarrow> int \<Rightarrow> int" where
  "MakeTime h m s ms = h * msPerHour + m * msPerMinute + s * msPerSecond + ms"

definition MakeDate :: "int \<Rightarrow> int \<Rightarrow> int" where
  "MakeDate day time = day * msPerDay + time"

definition getDay :: "zone \<Rightarrow> date \<Rightarrow> int option" where
  "getDay z d = (case d of Invalid_Date \<Rightarrow> None | Date t \<Rightarrow> Some (WeekDay (LocalTime z t)))"

definition getDate :: "zone \<Rightarrow> date \<Rightarrow> int option" where
  "getDate z d = (case d of Invalid_Date \<Rightarrow> None | Date t \<Rightarrow> Some (DateFromTime (LocalTime z t)))"

definition getMonth :: "zone \<Rightarrow> date \<Rightarrow> int option" where
  "getMonth z d = (case d of Invalid_Date \<Rightarrow> None | Date t \<Rightarrow> Some (MonthFromTime (LocalTime z t)))"

definition getFullYear :: "zone \<Rightarrow> date \<Rightarrow> int option" where
  "getFullYear z d = (case d of Invalid_Date \<Rightarrow> None | Date t \<Rightarrow> Some (YearFromTime (LocalTime z t)))"

definition setHoursZero :: "zone \<Rightarrow> date \<Rightarrow> date" where
  \<comment> \<open>\<open>d.setHours(0, 0, 0, 0)\<close>\<close>
  "setHoursZero z d =
     (case d of
        Invalid_Date \<Rightarrow> Invalid_Date
      | Date tv \<Rightarrow>
          (let t = LocalTime z tv
           in TimeClip (UTC z (MakeDate (Day t) (MakeTime 0 0 0 0)))))"

definition setDate :: "zone \<Rightarrow> date \<Rightarrow> int option \<Rightarrow> date" where
  \<comment> \<open>\<open>d.setDate(dt)\<close>: the day of the month is replaced and overflow carries; the
      argument \<open>None\<close> is \<open>NaN\<close>\<close>
  "setDate z d dt =
     (case d of
        Invalid_Date \<Rightarrow> Invalid_Date
      | Date tv \<Rightarrow>
          (case dt of
             None \<Rightarrow> Invalid_Date
           | Some n \<Rightarrow>
               (let t = LocalTime z tv
                in TimeClip (UTC z (MakeDate (MakeDay (YearFromTime t) (MonthFromTime t) n)
                                             (TimeWithinDay t))))))"

definition newDateFields :: "zone \<Rightarrow> int \<Rightarrow> int \<Rightarrow> int \<Rightarrow> int \<Rightarrow> int \<Rightarrow> int \<Rightarrow> date" where
  \<comment> \<open>\<open>new Date(year, month, day, hours, minutes, seconds)\<close>: a year from 0 to 99 means 1900 + year\<close>
  "newDateFields z y m dt h mi s =
     (let yr = (if 0 \<le> y \<and> y \<le> 99 then 1900 + y else y)
      in TimeClip (UTC z (MakeDate (MakeDay yr m dt) (MakeTime h mi s 0))))"

section \<open>Date grammar\<close>

definition WEEKDAYS :: "string list" where
  "WEEKDAYS = [''sunday'', ''monday'', ''tuesday'', ''wednesday'', ''thursday'', ''friday'',
               ''saturday'']"

fun indexOf :: "'a list \<Rightarrow> 'a \<Rightarrow> int" where
  \<comment> \<open>\<open>xs.indexOf(x)\<close>: the first index, or \<open>-1\<close>\<close>
  "indexOf [] x = -1"
| "indexOf (y # ys) x = (if y = x then 0 else (let i = indexOf ys x in if i < 0 then -1 else i + 1))"

definition matchIsoDate :: "string \<Rightarrow> (string \<times> string \<times> string) option" where
  \<comment> \<open>the whole-string pattern \<open>^\d{4}-\d{2}-\d{2}$\<close>: year, month and day digits\<close>
  "matchIsoDate s =
     (if length s = 10 \<and> list_all isDigit (take 4 s) \<and> s ! 4 = CHR ''-''
         \<and> list_all isDigit (take 2 (drop 5 s)) \<and> s ! 7 = CHR ''-''
         \<and> list_all isDigit (drop 8 s)
      then Some (take 4 s, take 2 (drop 5 s), drop 8 s)
      else None)"

definition parseIsoLocal :: "zone \<Rightarrow> string \<Rightarrow> string \<Rightarrow> string \<Rightarrow> date" where
  \<comment> \<open>\<open>new Date('YYYY-MM-DDT00:00:00')\<close>, read as local time: the months 01 to 12 and the
      days 01 to 31 are accepted (a day past the end of its month carries into the next
      month); anything else is the Invalid Date. The groups have four and two digits.\<close>
  "parseIsoLocal z ys ms ds =
     (let y = int (natOfDigits ys); m = int (natOfDigits ms); d = int (natOfDigits ds)
      in if 1 \<le> m \<and> m \<le> 12 \<and> 1 \<le> d \<and> d \<le> 31
         then TimeClip (UTC z (MakeDate (MakeDay y (m - 1) d) (MakeTime 0 0 0 0)))
         else Invalid_Date)"

definition getNextWeekday :: "zone \<Rightarrow> int \<Rightarrow> date \<Rightarrow> date" where
  \<comment> \<open>on the Invalid Date \<open>getDay()\<close> is \<open>NaN\<close>, and so are \<open>daysUntil\<close> and the argument of
      \<open>setDate\<close>\<close>
  "getNextWeekday z targetDay fromDate =
     (let result = fromDate
      in case getDay z result of
           None \<Rightarrow> setDate z result None
         | Some currentDay \<Rightarrow>
             (let daysUntil = targetDay - currentDay;
                  daysUntil = (if daysUntil \<le> 0 then daysUntil + 7 else daysUntil)
              in setDate z result (map_option (\<lambda>dt. dt + daysUntil) (getDate z result))))"

definition parseDate :: "zone \<Rightarrow> string \<Rightarrow> date option \<Rightarrow> date \<Rightarrow> parse_error + date option" where
  "parseDate z input referenceDate now =
     (let trimmed = trim input
      in case matchIsoDate trimmed of
           Some (ys, ms, ds) \<Rightarrow>
             (case parseIsoLocal z ys ms ds of
                Invalid_Date \<Rightarrow> Inl (InvalidDate trimmed)
              | Date t \<Rightarrow> Inr (Some (Date t)))
         | None \<Rightarrow>
             (let lower = toLowerCase trimmed;
                  today = setHoursZero z (case referenceDate of Some r \<Rightarrow> r | None \<Rightarrow> now)
              in if lower = ''today'' then Inr (Some today)
                 else if lower = ''tomorrow''
                 then Inr (Some (setDate z today (map_option (\<lambda>dt. dt + 1) (getDate z today))))
                 else (let dayIndex = indexOf WEEKDAYS lower
                       in if dayIndex \<noteq> -1 then Inr (Some (getNextWeekday z dayIndex today))
                          else Inr None)))"

definition getWeekdayIndex :: "string \<Rightarrow> int" where
  "getWeekdayIndex name = indexOf WEEKDAYS (toLowerCase name)"

definition isWeekday :: "string \<Rightarrow> bool" where
  "isWeekday input = (toLowerCase input \<in> set WEEKDAYS)"

section \<open>Recurrence grammar\<close>

datatype RecurrenceMode = CALENDAR | COMPLETION

datatype RecurrenceType = DAILY | WEEKLY | MONTHLY | INTERVAL

datatype RecurrenceUnit = Days | Weeks | Months

record RecurrencePattern =
  mode :: RecurrenceMode
  type' :: RecurrenceType
  interval :: "number option"
  unit' :: "RecurrenceUnit option"
  dayOfWeek :: "int option"
  timeOfDay :: "string option"
  anchor :: "date option"

definition SHORTHAND :: "(string \<times> RecurrenceType) list" where
  \<comment> \<open>the shorthand keywords, each with the recurrence type of the same spelling\<close>
  "SHORTHAND = [(''daily'', DAILY), (''weekly'', WEEKLY), (''monthly'', MONTHLY)]"

definition UNIT_MAP :: "(char \<times> RecurrenceUnit) list" where
  "UNIT_MAP = [(CHR ''d'', Days), (CHR ''w'', Weeks), (CHR ''m'', Months)]"

definition isTime :: "string \<Rightarrow> bool" where
  \<comment> \<open>the whole-string pattern \<open>^([01]?[0-9]|2[0-3]):[0-5][0-9]$\<close>\<close>
  "isTime token =
     (case splitOn CHR '':'' token of
        [h, m] \<Rightarrow>
          ((length h = 1 \<and> isDigit (h ! 0))
            \<or> (length h = 2 \<and> h ! 0 \<in> set ''01'' \<and> isDigit (h ! 1))
            \<or> (length h = 2 \<and> h ! 0 = CHR ''2'' \<and> h ! 1 \<in> set ''0123''))
          \<and> length m = 2 \<and> m ! 0 \<in> set ''012345'' \<and> isDigit (m ! 1)
      | _ \<Rightarrow> False)"

definition matchInterval :: "string \<Rightarrow> (string \<times> RecurrenceUnit) option" where
  \<comment> \<open>the whole-string pattern \<open>^(\d+)(d|w|m)$\<close>: the digits and the unit of \<open>UNIT_MAP\<close>\<close>
  "matchInterval s =
     (let ds = takeWhile isDigit s; r = dropWhile isDigit s
      in if ds \<noteq> [] \<and> length r = 1
         then (case map_of UNIT_MAP (hd r) of Some u \<Rightarrow> Some (ds, u) | None \<Rightarrow> None)
         else None)"

definition withOptionalTime ::
  "RecurrencePattern \<Rightarrow> nat \<Rightarrow> string list \<Rightarrow> RecurrencePattern \<times> nat" where
  \<comment> \<open>the check for an optional time after \<open>n\<close> consumed words:
      \<open>tokens.length >= n + 1 && isTime(tokens[n])\<close>\<close>
  "withOptionalTime pattern n tokens =
     (if length tokens \<ge> n + 1 \<and> isTime (tokens ! n)
      then (pattern\<lparr>timeOfDay := Some (normalizeTime (tokens ! n))\<rparr>, n + 1)
      else (pattern, n))"

definition parseRecurrence ::
  "string list \<Rightarrow> date option \<Rightarrow> date \<Rightarrow> parse_error + (RecurrencePattern \<times> nat) option" where
  "parseRecurrence tokens referenceDate now =
     (if length tokens = 0 then Inr None
      else
        let first = toLowerCase (tokens ! 0);
            anchor = (case referenceDate of Some r \<Rightarrow> r | None \<Rightarrow> now)
        in case map_of SHORTHAND first of
             Some ty \<Rightarrow>
               Inr (Some (withOptionalTime
                 \<lparr>mode = CALENDAR, type' = ty, interval = None, unit' = None,
                  dayOfWeek = None, timeOfDay = None, anchor = Some anchor\<rparr> 1 tokens))
           | None \<Rightarrow>
               if first = ''every'' then
                 (if length tokens < 2 then Inl ExpectedAfterEvery
                  else
                    let second = toLowerCase (tokens ! 1)
                    in if isWeekday second then
                         Inr (Some (withOptionalTime
                           \<lparr>mode = CALENDAR, type' = WEEKLY, interval = None, unit' = None,
                            dayOfWeek = Some (getWeekdayIndex second), timeOfDay = None,
                            anchor = Some anchor\<rparr> 2 tokens))
                       else
                         (case matchInterval second of
                            Some (ds, u) \<Rightarrow>
                              (if lessEqZero (parseInt ds) then Inl (IntervalNotPositive (''every '' @ second))
                               else Inr (Some (withOptionalTime
                                 \<lparr>mode = CALENDAR, type' = INTERVAL,
                                  interval = Some (parseInt ds), unit' = Some u,
                                  dayOfWeek = None, timeOfDay = None,
                                  anchor = Some anchor\<rparr> 2 tokens)))
                          | None \<Rightarrow> Inl (InvalidRecurrence (''every '' @ second))))
               else if first = ''after'' then
                 (if length tokens < 2 then Inl ExpectedAfterAfter
                  else
                    let second = toLowerCase (tokens ! 1)
                    in case matchInterval second of
                         Some (ds, u) \<Rightarrow>
                           (if lessEqZero (parseInt ds) then Inl (IntervalNotPositive (''after '' @ second))
                            else Inr (Some (withOptionalTime
                              \<lparr>mode = COMPLETION, type' = INTERVAL,
                               interval = Some (parseInt ds), unit' = Some u,
                               dayOfWeek = None, timeOfDay = None, anchor = None\<rparr> 2 tokens)))
                       | None \<Rightarrow> Inl (InvalidRecurrence (''after '' @ second)))
               else Inr None)"

section \<open>Tokenizer\<close>

datatype ParserMode = TT | Churn

datatype TokenType =
    DESCRIPTION | PROJECT | TAG | DURATION
  | DATE | BUCKET | RECURRENCE | WINDOW | DEPENDENCIES
  | TIMESTAMP | PRIORITY | EXPLICIT_DURATION | REMARK
  | RESUME_MARKER | END_MARKER | PAUSE_MARKER | ABANDON_MARKER | STATE_SUFFIX

record Token =
  ttype :: TokenType
  tvalue :: string
  tposition :: nat

record TokenizeResult =
  res_tokens :: "Token list"
  res_raw :: string

text \<open>
  Each regular expression of the tokenizer is a function on the remaining input. A
  matcher returns what the source reads from the match: the text of group 1 and, where
  it differs from a fixed prefix plus the group, the length of the whole match.
\<close>

definition startsWith :: "string \<Rightarrow> string \<Rightarrow> bool" where
  "startsWith s p = (take (length p) s = p)"

definition matchIdent :: "string \<Rightarrow> string option" where
  \<comment> \<open>the prefix pattern \<open>([a-zA-Z][a-zA-Z0-9_-]*)\<close>\<close>
  "matchIdent s =
     (case s of
        a # r \<Rightarrow> (if isAlpha a then Some (a # takeWhile isIdentChar r) else None)
      | [] \<Rightarrow> None)"

definition matchDurationLong :: "string \<Rightarrow> string option" where
  \<comment> \<open>the prefix pattern \<open>\d+h\d+m\<close>\<close>
  "matchDurationLong s =
     (let hs = takeWhile isDigit s; r = dropWhile isDigit s
      in if hs \<noteq> [] \<and> r \<noteq> [] \<and> hd r = CHR ''h'' then
           (let ms = takeWhile isDigit (tl r); r2 = dropWhile isDigit (tl r)
            in if ms \<noteq> [] \<and> r2 \<noteq> [] \<and> hd r2 = CHR ''m''
               then Some (hs @ ''h'' @ ms @ ''m'') else None)
         else None)"

definition matchDurationShort :: "string \<Rightarrow> string option" where
  \<comment> \<open>the prefix pattern \<open>\d+[hm]\<close>\<close>
  "matchDurationShort s =
     (let ds = takeWhile isDigit s; r = dropWhile isDigit s
      in if ds \<noteq> [] \<and> r \<noteq> [] \<and> (hd r = CHR ''h'' \<or> hd r = CHR ''m'')
         then Some (ds @ [hd r]) else None)"

definition matchDuration :: "string \<Rightarrow> string option" where
  \<comment> \<open>the prefix pattern \<open>(\d+h\d+m|\d+[hm])\<close>: the longer alternative first\<close>
  "matchDuration s =
     (case matchDurationLong s of
        Some v \<Rightarrow> Some v
      | None \<Rightarrow> matchDurationShort s)"

definition matchExplicitDuration :: "string \<Rightarrow> string option" where
  \<comment> \<open>the prefix pattern \<open>(\d+h\d+m|\d+[hm])\)\<close> after the opening parenthesis: an
      alternative counts only when the closing parenthesis follows it\<close>
  "matchExplicitDuration s =
     (let closes = (\<lambda>v. startsWith (drop (length v) s) '')'')
      in case matchDurationLong s of
           Some v \<Rightarrow>
             (if closes v then Some v
              else (case matchDurationShort s of
                      Some u \<Rightarrow> (if closes u then Some u else None)
                    | None \<Rightarrow> None))
         | None \<Rightarrow>
             (case matchDurationShort s of
                Some u \<Rightarrow> (if closes u then Some u else None)
              | None \<Rightarrow> None))"

definition matchDatePrefix :: "string \<Rightarrow> string option" where
  \<comment> \<open>the prefix pattern \<open>\d{4}-\d{2}-\d{2}\s+\<close>: the matched text\<close>
  "matchDatePrefix s =
     (if length s \<ge> 11 \<and> matchIsoDate (take 10 s) \<noteq> None \<and> isSpace (s ! 10)
      then Some (take 10 s @ takeWhile isSpace (drop 10 s))
      else None)"

definition matchClockSeconds :: "string \<Rightarrow> string option" where
  \<comment> \<open>the prefix pattern \<open>\d{1,2}:\d{2}(:\d{2})?\<close>: the matched text\<close>
  "matchClockSeconds s =
     (case matchClock s of
        Some (h, m, r) \<Rightarrow>
          (if length r \<ge> 3 \<and> r ! 0 = CHR '':'' \<and> isDigit (r ! 1) \<and> isDigit (r ! 2)
           then Some (h @ '':'' @ m @ take 3 r)
           else Some (h @ '':'' @ m))
      | None \<Rightarrow> None)"

definition matchTimestamp :: "string \<Rightarrow> string option" where
  \<comment> \<open>the prefix pattern \<open>^(\d{4}-\d{2}-\d{2}\s+)?\d{1,2}:\d{2}(:\d{2})?\<close>: the matched
      text. When the date part matches, a time must follow it: without the date part the
      same input starts with four digits and cannot match the time\<close>
  "matchTimestamp s =
     (case matchDatePrefix s of
        Some d \<Rightarrow>
          (case matchClockSeconds (drop (length d) s) of
             Some t \<Rightarrow> Some (d @ t)
           | None \<Rightarrow> None)
      | None \<Rightarrow> matchClockSeconds s)"

definition atBoundary :: "string \<Rightarrow> bool" where
  \<comment> \<open>the pattern \<open>(?:\s|$)\<close>\<close>
  "atBoundary r = (r = [] \<or> isSpace (hd r))"

definition STATE_WORDS :: "string list" where
  "STATE_WORDS = [''end'', ''pause'', ''abandon'', ''resume'', ''prev'']"

definition matchStateMarker :: "string \<Rightarrow> (string \<times> nat) option" where
  \<comment> \<open>the prefix pattern \<open>^@(end|pause|abandon|resume|prev|\d+)(?:\s|$)\<close>: group 1 and
      the length of the whole match, which takes one white-space character if there is one\<close>
  "matchStateMarker s =
     (if s \<noteq> [] \<and> hd s = CHR ''@'' then
        (let r = tl s;
             len = (\<lambda>w. 1 + length w + (if drop (length w) r = [] then 0 else 1))
         in case filter (\<lambda>w. startsWith r w \<and> atBoundary (drop (length w) r)) STATE_WORDS of
              w # _ \<Rightarrow> Some (w, len w)
            | [] \<Rightarrow>
                (let ds = takeWhile isDigit r
                 in if ds \<noteq> [] \<and> atBoundary (drop (length ds) r) then Some (ds, len ds)
                    else None))
      else None)"

definition STATE_SUFFIXES :: "string list" where
  "STATE_SUFFIXES = [''paused'', ''completed'', ''abandoned'']"

definition matchStateSuffix :: "string \<Rightarrow> string option" where
  \<comment> \<open>the prefix pattern \<open>(paused|completed|abandoned)\<close> after the arrow\<close>
  "matchStateSuffix s =
     (case filter (startsWith s) STATE_SUFFIXES of
        w # _ \<Rightarrow> Some w
      | [] \<Rightarrow> None)"

function depsTail :: "string \<Rightarrow> string" where
  \<comment> \<open>the prefix pattern \<open>(?:,\d+)*\<close>: the matched text\<close>
  "depsTail s =
     (if s \<noteq> [] \<and> hd s = CHR '','' \<and> takeWhile isDigit (tl s) \<noteq> []
      then '','' @ takeWhile isDigit (tl s) @ depsTail (dropWhile isDigit (tl s))
      else [])"
  by pat_completeness auto
termination
proof (relation "measure length")
  show "wf (measure length)" by simp
next
  fix s :: string
  assume "s \<noteq> [] \<and> hd s = CHR '','' \<and> takeWhile isDigit (tl s) \<noteq> []"
  then have "length (tl s) < length s" by (cases s) simp_all
  moreover have "length (dropWhile isDigit (tl s)) \<le> length (tl s)"
    by (rule length_dropWhile_le)
  ultimately show "(dropWhile isDigit (tl s), s) \<in> measure length" by simp
qed

declare depsTail.simps [simp del]

definition matchDeps :: "string \<Rightarrow> string option" where
  \<comment> \<open>the prefix pattern \<open>(\d+(?:,\d+)*)\<close>\<close>
  "matchDeps s =
     (let ds = takeWhile isDigit s
      in if ds \<noteq> [] then Some (ds @ depsTail (dropWhile isDigit s)) else None)"

datatype marker =
    Marker TokenType string nat   \<comment> \<open>token type, token value, length of the whole match\<close>
  | Remark string                 \<comment> \<open>the remark, which ends the scan\<close>

fun firstSome :: "'a option list \<Rightarrow> 'a option" where
  "firstSome [] = None"
| "firstSome (Some x # xs) = Some x"
| "firstSome (None # xs) = firstSome xs"

definition matchMarker :: "ParserMode \<Rightarrow> string \<Rightarrow> marker option" where
  \<comment> \<open>the metadata checks of the main loop, in the order of the source; the first that
      matches wins, and a check whose pattern fails falls through to the next\<close>
  "matchMarker pm remaining =
     (let char = hd remaining
      in firstSome
        [if char = CHR ''@''
         then map_option (\<lambda>v. Marker PROJECT v (1 + length v)) (matchIdent (tl remaining))
         else None,
         if char = CHR ''+''
         then map_option (\<lambda>v. Marker TAG v (1 + length v)) (matchIdent (tl remaining))
         else None,
         if char = CHR ''~''
         then map_option (\<lambda>v. Marker DURATION v (1 + length v)) (matchDuration (tl remaining))
         else None,
         if pm = Churn \<and> char = CHR ''$''
         then map_option (\<lambda>v. Marker BUCKET v (1 + length v)) (matchIdent (tl remaining))
         else None,
         if pm = TT \<and> char = CHR ''^'' \<and> tl remaining \<noteq> []
              \<and> hd (tl remaining) \<in> set ''123456789''
         then Some (Marker PRIORITY [hd (tl remaining)] 2)
         else None,
         if pm = TT \<and> char = CHR ''(''
         then map_option (\<lambda>v. Marker EXPLICIT_DURATION v (length v + 2))
                (matchExplicitDuration (tl remaining))
         else None,
         if pm = TT \<and> char = CHR ''#'' \<and> length remaining > 1 \<and> remaining ! 1 = CHR '' ''
         then Some (Remark (drop 2 remaining))
         else None,
         if pm = TT \<and> startsWith remaining ''->''
         then map_option (\<lambda>v. Marker STATE_SUFFIX v (2 + length v))
                (matchStateSuffix (drop 2 remaining))
         else None,
         if pm = Churn \<and> startsWith remaining ''window:''
         then map_option (\<lambda>(s, e, _). Marker WINDOW (s @ ''-'' @ e) (7 + length (s @ ''-'' @ e)))
                (matchWindow (drop 7 remaining))
         else None,
         if pm = Churn \<and> startsWith remaining ''after:''
         then map_option (\<lambda>v. Marker DEPENDENCIES v (6 + length v)) (matchDeps (drop 6 remaining))
         else None])"

definition flushDescription :: "string list \<Rightarrow> nat \<Rightarrow> Token list" where
  \<comment> \<open>the pending description words as one token, when there are any\<close>
  "flushDescription descriptionParts descStartPosition =
     (if length descriptionParts > 0
      then [\<lparr>ttype = DESCRIPTION, tvalue = trim (joinWith '' '' descriptionParts),
             tposition = descStartPosition\<rparr>]
      else [])"

lemma firstSome_in: "firstSome xs = Some y \<Longrightarrow> Some y \<in> set xs"
  by (induction xs rule: firstSome.induct) auto

lemma matchMarker_consumes:
  assumes "matchMarker pm remaining = Some (Marker ty v n)"
  shows "0 < n"
proof -
  note in_list = firstSome_in [OF assms [unfolded matchMarker_def Let_def]]
  from in_list show ?thesis
    unfolding set_simps insert_iff empty_iff
    by (elim disjE)
       (auto split: if_splits prod.splits simp: eq_commute [of "Some (Marker ty v n)"])
qed

function scanLoop ::
  "ParserMode \<Rightarrow> string \<Rightarrow> nat \<Rightarrow> string list \<Rightarrow> nat \<Rightarrow> Token list \<Rightarrow> Token list" where
  \<comment> \<open>the \<open>while (remaining.length > 0)\<close> loop with its state: the remaining input, the
      position, the pending description words, where they started, and the tokens so far;
      the result is the token list after the final flush\<close>
  "scanLoop pm remaining position descriptionParts descStartPosition toks =
     (let leadingSpace = takeWhile isSpace remaining;
          remaining = drop (length leadingSpace) remaining;
          position = position + length leadingSpace
      in if remaining = [] then toks @ flushDescription descriptionParts descStartPosition
         else
           (case matchMarker pm remaining of
              Some (Remark remarkText) \<Rightarrow>
                toks @ flushDescription descriptionParts descStartPosition
                  @ [\<lparr>ttype = REMARK, tvalue = remarkText, tposition = position\<rparr>]
            | Some (Marker ty v n) \<Rightarrow>
                scanLoop pm (drop n remaining) (position + n) [] (position + n)
                  (toks @ flushDescription descriptionParts descStartPosition
                     @ [\<lparr>ttype = ty, tvalue = v, tposition = position\<rparr>])
            | None \<Rightarrow>
                (let word = takeWhile (\<lambda>c. \<not> isSpace c) remaining
                 in if word = [] then toks @ flushDescription descriptionParts descStartPosition
                    else scanLoop pm (drop (length word) remaining) (position + length word)
                           (descriptionParts @ [word]) descStartPosition toks)))"
  by pat_completeness auto
termination
proof (relation "measure (\<lambda>(pm, remaining, _). length remaining)")
  show "wf (measure (\<lambda>(pm, remaining, rest :: nat \<times> string list \<times> nat \<times> Token list). length remaining))"
    by simp
next
  fix pm :: ParserMode and remaining :: string and position :: nat
    and descriptionParts :: "string list" and descStartPosition :: nat and toks :: "Token list"
    and x xa xb x2 x1 x2a x3
  assume "xa = drop (length x) remaining" "xa \<noteq> []"
    "matchMarker pm xa = Some x2" "x2 = Marker x1 x2a x3"
  then have "0 < x3" using matchMarker_consumes by blast
  then have "length (drop x3 xa) < length xa" using \<open>xa \<noteq> []\<close> by simp
  moreover have "length xa \<le> length remaining"
    using \<open>xa = drop (length x) remaining\<close> by simp
  ultimately show "((pm, drop x3 xa, xb + x3, [], xb + x3,
          toks @ flushDescription descriptionParts descStartPosition
            @ [\<lparr>ttype = x1, tvalue = x2a, tposition = xb\<rparr>]),
         pm, remaining, position, descriptionParts, descStartPosition, toks)
        \<in> measure (\<lambda>(pm, remaining, _). length remaining)"
    by simp
next
  fix pm :: ParserMode and remaining :: string and position :: nat
    and descriptionParts :: "string list" and descStartPosition :: nat and toks :: "Token list"
    and x xa xb xc
  assume a: "xa = drop (length x) remaining" "xa \<noteq> []"
    "xc = takeWhile (\<lambda>c. \<not> isSpace c) xa" "xc \<noteq> []"
  have "length (drop (length xc) xa) < length xa" using a(2,4) by simp
  moreover have "length xa \<le> length remaining" using a(1) by simp
  ultimately show "((pm, drop (length xc) xa, xb + length xc, descriptionParts @ [xc],
          descStartPosition, toks),
         pm, remaining, position, descriptionParts, descStartPosition, toks)
        \<in> measure (\<lambda>(pm, remaining, _). length remaining)"
    by simp
qed

declare scanLoop.simps [simp del]

definition stateTokenType :: "string \<Rightarrow> TokenType" where
  "stateTokenType marker =
     (if marker = ''end'' then END_MARKER
      else if marker = ''pause'' then PAUSE_MARKER
      else if marker = ''abandon'' then ABANDON_MARKER
      else RESUME_MARKER)"

definition timestampStep :: "string \<Rightarrow> Token list \<times> string \<times> nat" where
  \<comment> \<open>the timestamp check of the time-tracker mode: the tokens, the remaining input
      and the position after it\<close>
  "timestampStep remaining =
     (case matchTimestamp remaining of
        Some m0 \<Rightarrow>
          ([\<lparr>ttype = TIMESTAMP, tvalue = trim m0, tposition = 0\<rparr>],
           trim (drop (length m0) remaining), length m0)
      | None \<Rightarrow> ([], remaining, 0))"

fun stateMarkerStep :: "Token list \<times> string \<times> nat \<Rightarrow> Token list \<times> string \<times> nat" where
  \<comment> \<open>the state marker check of the time-tracker mode, after the timestamp check\<close>
  "stateMarkerStep (toks, remaining, position) =
     (case matchStateMarker remaining of
        Some (marker, n) \<Rightarrow>
          (toks @ [\<lparr>ttype = stateTokenType marker, tvalue = marker, tposition = position\<rparr>],
           trim (drop n remaining), position + n)
      | None \<Rightarrow> (toks, remaining, position))"

definition tokenize :: "string \<Rightarrow> ParserMode \<Rightarrow> parse_error + TokenizeResult" where
  "tokenize input pm =
     (let trimmed = trim input
      in if trimmed = [] then Inl InputEmpty
         else
           let (toks, remaining, position) =
                 (if pm = TT then stateMarkerStep (timestampStep trimmed)
                  else ([], trimmed, 0))
           in Inr \<lparr>res_tokens = scanLoop pm remaining position [] position toks,
                   res_raw = trimmed\<rparr>)"

definition findTokens :: "Token list \<Rightarrow> TokenType \<Rightarrow> Token list" where
  "findTokens toks ty = filter (\<lambda>t. ttype t = ty) toks"

definition findToken :: "Token list \<Rightarrow> TokenType \<Rightarrow> Token option" where
  "findToken toks ty = List.find (\<lambda>t. ttype t = ty) toks"

section \<open>Duration grammar\<close>

definition parseDuration :: "string \<Rightarrow> parse_error + nat" where
  \<comment> \<open>Modelled from the spec: \<open>parseDuration\<close> of \<open>parsers/duration\<close>, whose source file is
      missing. The input forms are \<open><N>h<N>m\<close>, \<open><N>h\<close> and \<open><N>m\<close>; the result is the
      total of minutes, hours times 60 plus minutes. Any other string is an error.\<close>
  "parseDuration s =
     (let hs = takeWhile isDigit s; r = dropWhile isDigit s
      in if hs = [] then Inl (InvalidDuration s)
         else if r = ''m'' then Inr (natOfDigits hs)
         else if r = ''h'' then Inr (natOfDigits hs * 60)
         else if r \<noteq> [] \<and> hd r = CHR ''h'' \<and> takeWhile isDigit (tl r) \<noteq> []
                 \<and> dropWhile isDigit (tl r) = ''m''
         then Inr (natOfDigits hs * 60 + natOfDigits (takeWhile isDigit (tl r)))
         else Inl (InvalidDuration s))"

section \<open>Mode extractors\<close>

record ParsedTaskBase =
  title :: string
  project :: "string option"
  tags :: "string list"
  duration :: "nat option"
  raw :: string

record ChurnParsedTask = ParsedTaskBase +
  date :: "date option"
  bucket :: "string option"
  recurrence :: "RecurrencePattern option"
  window :: "TimeWindow option"
  dependencies :: "number list option"

datatype TTState = StateEnd | StatePause | StateAbandon

record TTParsedTask = ParsedTaskBase +
  timestamp :: "date option"
  priority :: "number option"
  explicitDuration :: "nat option"
  remark :: "string option"
  state :: "TTState option"
  stateSuffix :: "string option"
  resumeMarker :: "string option"

datatype ParsedTask = ChurnTask ChurnParsedTask | TTTask TTParsedTask

function splitWs :: "string \<Rightarrow> string list" where
  \<comment> \<open>\<open>s.split(/\s+/)\<close>: the pieces between maximal runs of white space\<close>
  "splitWs s =
     (let w = takeWhile (\<lambda>c. \<not> isSpace c) s; r = dropWhile (\<lambda>c. \<not> isSpace c) s
      in if r = [] then [w] else w # splitWs (dropWhile isSpace r))"
  by pat_completeness auto
termination
proof (relation "measure length")
  show "wf (measure length)" by simp
next
  fix s :: string and x xa
  assume a: "xa = dropWhile (\<lambda>c. \<not> isSpace c) s" "xa \<noteq> []"
  then have "isSpace (hd xa)" using hd_dropWhile [of "\<lambda>c. \<not> isSpace c" s] by simp
  then have "length (dropWhile isSpace xa) < length xa" using a(2) by (cases xa) (simp_all add: less_Suc_eq_le length_dropWhile_le)
  moreover have "length xa \<le> length s" using a(1) by (simp add: length_dropWhile_le)
  ultimately show "(dropWhile isSpace xa, s) \<in> measure length" by simp
qed

declare splitWs.simps [simp del]

fun parseIds :: "string list \<Rightarrow> parse_error + number list" where
  \<comment> \<open>the loop of \<open>parseDependencies\<close> over the trimmed pieces\<close>
  "parseIds [] = Inr []"
| "parseIds (i # ids) =
     (let num = parseInt i
      in if isNaN num \<or> lessEqZero num then Inl (InvalidDependency i)
         else (case parseIds ids of
                 Inl e \<Rightarrow> Inl e
               | Inr result \<Rightarrow> Inr (num # result)))"

definition parseDependencies :: "string \<Rightarrow> parse_error + number list" where
  "parseDependencies input =
     (case parseIds (map trim (splitOn CHR '','' input)) of
        Inl e \<Rightarrow> Inl e
      | Inr result \<Rightarrow> (if length result = 0 then Inl DependencyRequired else Inr result))"

definition optionally :: "('a \<Rightarrow> parse_error + 'b) \<Rightarrow> 'a option \<Rightarrow> parse_error + 'b option" where
  \<comment> \<open>\<open>if (x) { field = f(x) }\<close> where \<open>f\<close> can raise\<close>
  "optionally f x =
     (case x of
        None \<Rightarrow> Inr None
      | Some v \<Rightarrow> (case f v of Inl e \<Rightarrow> Inl e | Inr y \<Rightarrow> Inr (Some y)))"

definition leadingWords ::
  "zone \<Rightarrow> Token list \<Rightarrow> date option \<Rightarrow> date
     \<Rightarrow> parse_error + (RecurrencePattern option \<times> date option \<times> string list)" where
  \<comment> \<open>the first part of \<open>parseChurnTokens\<close>: recurrence or date at the start of the first
      description token, and the description parts that remain\<close>
  "leadingWords z descTokens referenceDate now =
     (if length descTokens > 0 then
        (let firstDescWords = splitWs (tvalue (hd descTokens));
             others = map tvalue (tl descTokens)
         in case parseRecurrence firstDescWords referenceDate now of
              Inl e \<Rightarrow> Inl e
            | Inr (Some (pattern, tokensConsumed)) \<Rightarrow>
                (let remainingWords = drop tokensConsumed firstDescWords
                 in Inr (Some pattern, None,
                      (if length remainingWords > 0 then [joinWith '' '' remainingWords] else [])
                        @ others))
            | Inr None \<Rightarrow>
                (case parseDate z (hd firstDescWords) referenceDate now of
                   Inl e \<Rightarrow> Inl e
                 | Inr (Some d) \<Rightarrow>
                     (let remainingWords = drop 1 firstDescWords
                      in Inr (None, Some d,
                           (if length remainingWords > 0 then [joinWith '' '' remainingWords] else [])
                             @ others))
                 | Inr None \<Rightarrow> Inr (None, None, map tvalue descTokens)))
      else Inr (None, None, []))"

definition parseChurnTokens ::
  "zone \<Rightarrow> Token list \<Rightarrow> string \<Rightarrow> date option \<Rightarrow> date \<Rightarrow> parse_error + ChurnParsedTask" where
  "parseChurnTokens z toks rawInput referenceDate now =
     (case leadingWords z (findTokens toks DESCRIPTION) referenceDate now of
        Inl e \<Rightarrow> Inl e
      | Inr (rec, dt, descParts) \<Rightarrow>
          (case optionally parseDuration (map_option tvalue (findToken toks DURATION)) of
             Inl e \<Rightarrow> Inl e
           | Inr dur \<Rightarrow>
               (case optionally parseTimeWindow (map_option tvalue (findToken toks WINDOW)) of
                  Inl e \<Rightarrow> Inl e
                | Inr win \<Rightarrow>
                    (case optionally parseDependencies
                            (map_option tvalue (findToken toks DEPENDENCIES)) of
                       Inl e \<Rightarrow> Inl e
                     | Inr deps \<Rightarrow>
                         Inr \<lparr>title = trim (joinWith '' '' descParts),
                              project = map_option tvalue (findToken toks PROJECT),
                              tags = map tvalue (findTokens toks TAG),
                              duration = dur,
                              raw = rawInput,
                              date = dt,
                              bucket = map_option tvalue (findToken toks BUCKET),
                              recurrence = rec,
                              window = win,
                              dependencies = deps\<rparr>))))"

definition matchClockWhole :: "string \<Rightarrow> (string \<times> string \<times> string option) option" where
  \<comment> \<open>the whole-string pattern \<open>(\d{1,2}):(\d{2})(?::(\d{2}))?$\<close>: its three groups\<close>
  "matchClockWhole s =
     (case matchClock s of
        Some (h, m, r) \<Rightarrow>
          (if r = [] then Some (h, m, None)
           else if length r = 3 \<and> r ! 0 = CHR '':'' \<and> isDigit (r ! 1) \<and> isDigit (r ! 2)
           then Some (h, m, Some (drop 1 r))
           else None)
      | None \<Rightarrow> None)"

definition parseTimestamp :: "zone \<Rightarrow> string \<Rightarrow> date \<Rightarrow> parse_error + date" where
  \<comment> \<open>the groups have at most four digits, which \<open>parseInt\<close> reads exactly; a field of the
      Invalid Date is \<open>NaN\<close>, and a date made from \<open>NaN\<close> is the Invalid Date\<close>
  "parseTimestamp z ts now =
     (let trimmed = trim ts;
          secondsOf = (\<lambda>sec. case sec of
                               Some d \<Rightarrow> (if d \<noteq> [] then int (natOfDigits d) else 0)
                             | None \<Rightarrow> 0);
          datetimeMatch =
            (case matchDatePrefix trimmed of
               Some d \<Rightarrow> matchClockWhole (drop (length d) trimmed)
             | None \<Rightarrow> None)
      in case datetimeMatch of
           Some (h, mi, sec) \<Rightarrow>
             Inr (newDateFields z
                    (int (natOfDigits (take 4 trimmed)))
                    (int (natOfDigits (take 2 (drop 5 trimmed))) - 1)
                    (int (natOfDigits (take 2 (drop 8 trimmed))))
                    (int (natOfDigits h)) (int (natOfDigits mi)) (secondsOf sec))
         | None \<Rightarrow>
             (case matchClockWhole trimmed of
                Some (h, mi, sec) \<Rightarrow>
                  (let today = now
                   in case (getFullYear z today, getMonth z today, getDate z today) of
                        (Some y, Some m, Some d) \<Rightarrow>
                          Inr (newDateFields z y m d
                                 (int (natOfDigits h)) (int (natOfDigits mi)) (secondsOf sec))
                      | _ \<Rightarrow> Inr Invalid_Date)
              | None \<Rightarrow> Inl (InvalidTimestamp ts)))"

definition parseTTTokens :: "zone \<Rightarrow> Token list \<Rightarrow> string \<Rightarrow> date \<Rightarrow> parse_error + TTParsedTask" where
  "parseTTTokens z toks rawInput now =
     (case optionally (\<lambda>v. parseTimestamp z v now) (map_option tvalue (findToken toks TIMESTAMP)) of
        Inl e \<Rightarrow> Inl e
      | Inr ts \<Rightarrow>
          (case optionally parseDuration (map_option tvalue (findToken toks DURATION)) of
             Inl e \<Rightarrow> Inl e
           | Inr dur \<Rightarrow>
               (case optionally parseDuration
                       (map_option tvalue (findToken toks EXPLICIT_DURATION)) of
                  Inl e \<Rightarrow> Inl e
                | Inr expl \<Rightarrow>
                    (let descTokens = findTokens toks DESCRIPTION
                     in Inr \<lparr>title = (if length descTokens > 0
                                       then trim (joinWith '' '' (map tvalue descTokens)) else []),
                             project = map_option tvalue (findToken toks PROJECT),
                             tags = map tvalue (findTokens toks TAG),
                             duration = dur,
                             raw = rawInput,
                             timestamp = ts,
                             priority =
                               map_option (\<lambda>t. parseInt (tvalue t)) (findToken toks PRIORITY),
                             explicitDuration = expl,
                             remark = map_option tvalue (findToken toks REMARK),
                             state =
                               (if findToken toks END_MARKER \<noteq> None then Some StateEnd
                                else if findToken toks PAUSE_MARKER \<noteq> None then Some StatePause
                                else if findToken toks ABANDON_MARKER \<noteq> None then Some StateAbandon
                                else None),
                             stateSuffix = map_option tvalue (findToken toks STATE_SUFFIX),
                             resumeMarker = map_option tvalue (findToken toks RESUME_MARKER)\<rparr>))))"

section \<open>Facade\<close>

definition parse :: "zone \<Rightarrow> ParserMode \<Rightarrow> date option \<Rightarrow> string \<Rightarrow> date \<Rightarrow> parse_error + ParsedTask" where
  \<comment> \<open>\<open>TaskParser.parse\<close> of a parser constructed with the mode and the reference date,
      on a host with the time zone \<open>z\<close>\<close>
  "parse z pm referenceDate input now =
     (if input = [] then Inl DescriptionEmpty
      else
        let trimmed = trim input
        in if length trimmed = 0 then Inl DescriptionEmpty
           else
             (case tokenize trimmed pm of
                Inl e \<Rightarrow> Inl e
              | Inr res \<Rightarrow>
                  (if pm = TT then
                     (case parseTTTokens z (res_tokens res) (res_raw res) now of
                        Inl e \<Rightarrow> Inl e
                      | Inr task \<Rightarrow> Inr (TTTask task))
                   else
                     (case parseChurnTokens z (res_tokens res) (res_raw res) referenceDate now of
                        Inl e \<Rightarrow> Inl e
                      | Inr task \<Rightarrow>
                          (if title task = [] then Inl TitleRequired
                           else Inr (ChurnTask task))))))"

section \<open>Notions used to state the properties\<close>

definition loopTypes :: "TokenType set" where
  \<comment> \<open>the token types the main loop can emit\<close>
  "loopTypes = {DESCRIPTION, PROJECT, TAG, DURATION, BUCKET, PRIORITY, EXPLICIT_DURATION,
                REMARK, STATE_SUFFIX, WINDOW, DEPENDENCIES}"

definition isStateMarkerToken :: "Token \<Rightarrow> bool" where
  \<comment> \<open>a token of one of the four state and resume marker types\<close>
  "isStateMarkerToken t =
     (ttype t \<in> {END_MARKER, PAUSE_MARKER, ABANDON_MARKER, RESUME_MARKER})"

fun tails :: "'a list \<Rightarrow> 'a list list" where
  \<comment> \<open>the non-empty suffixes of a list\<close>
  "tails [] = []"
| "tails (x # xs) = (x # xs) # tails xs"

definition noMarker :: "ParserMode \<Rightarrow> string \<Rightarrow> bool" where
  \<comment> \<open>no metadata check of the main loop matches at any place of the string\<close>
  "noMarker pm s = list_all (\<lambda>r. matchMarker pm r = None) (tails s)"

definition wordsOf :: "string \<Rightarrow> string list" where
  \<comment> \<open>the words of a string: its maximal runs of characters other than white space\<close>
  "wordsOf s = filter (\<lambda>w. w \<noteq> []) (splitWs s)"

section \<open>Properties of the calendar\<close>

declare yearOfDay.simps [simp del]

lemma yearOfDay_bounds:
  "DayFromYear (yearOfDay n y) \<le> n \<and> n < DayFromYear (yearOfDay n y + 1)"
proof (induction n y rule: yearOfDay.induct)
  case (1 n y)
  show ?case
  proof (cases "n < DayFromYear y")
    case True
    with 1 show ?thesis by (subst (1 2) yearOfDay.simps) simp
  next
    case False
    show ?thesis
    proof (cases "DayFromYear (y + 1) \<le> n")
      case True
      with False 1 show ?thesis by (subst (1 2) yearOfDay.simps) simp
    next
      case F2: False
      with False show ?thesis by (subst (1 2) yearOfDay.simps) simp
    qed
  qed
qed

lemma year_unique:
  assumes "DayFromYear a \<le> n" "n < DayFromYear (a + 1)"
    and "DayFromYear b \<le> n" "n < DayFromYear (b + 1)"
  shows "a = b"
proof (rule ccontr)
  assume "a \<noteq> b"
  then consider "a < b" | "b < a" by linarith
  then show False
  proof cases
    case 1
    then have "DayFromYear (a + 1) \<le> DayFromYear b" by (intro DayFromYear_mono) simp
    with assms show False by simp
  next
    case 2
    then have "DayFromYear (b + 1) \<le> DayFromYear a" by (intro DayFromYear_mono) simp
    with assms show False by simp
  qed
qed

lemma yearOfDay_eq:
  "DayFromYear y \<le> n \<Longrightarrow> n < DayFromYear (y + 1) \<Longrightarrow> yearOfDay n y0 = y"
  using year_unique [of "yearOfDay n y0" n y] yearOfDay_bounds [of n y0] by simp

section \<open>Properties of the time-window grammar\<close>

text \<open>
  Claim C4. A window is valid when both of its clock times parse, to the clock \<open>s\<close> for
  the start and \<open>e\<close> for the end; a time is valid when it parses, to the clock \<open>t\<close>. The
  minute of day of a clock is its hour times 60 plus its minute. For a valid window,
  \<open>crossesMidnight\<close> holds exactly when the end minute of day is at most the start
  minute of day (so equal start and end cross). For a valid time, \<open>isTimeInWindow\<close>
  holds iff \<open>start \<le> t < end\<close> when the window does not cross, and iff \<open>t \<ge> start\<close> or
  \<open>t < end\<close> when it crosses.
\<close>

theorem C4_time_window:
  assumes "parseTime (start w) = Inr s" and "parseTime (end' w) = Inr e"
    and "parseTime timeStr = Inr t"
  shows "crossesMidnight w = Inr (hour e * 60 + minute e \<le> hour s * 60 + minute s)
       \<and> isTimeInWindow timeStr w =
           Inr (if hour e * 60 + minute e \<le> hour s * 60 + minute s
                then hour t * 60 + minute t \<ge> hour s * 60 + minute s
                       \<or> hour t * 60 + minute t < hour e * 60 + minute e
                else hour s * 60 + minute s \<le> hour t * 60 + minute t
                       \<and> hour t * 60 + minute t < hour e * 60 + minute e)
       \<and> (start w = end' w \<longrightarrow> crossesMidnight w = Inr True)"
proof -
  have c: "crossesMidnight w = Inr (hour e * 60 + minute e \<le> hour s * 60 + minute s)"
    using assms(1,2) by (simp add: crossesMidnight_def Let_def)
  have i: "isTimeInWindow timeStr w =
           Inr (if hour e * 60 + minute e \<le> hour s * 60 + minute s
                then hour t * 60 + minute t \<ge> hour s * 60 + minute s
                       \<or> hour t * 60 + minute t < hour e * 60 + minute e
                else hour s * 60 + minute s \<le> hour t * 60 + minute t
                       \<and> hour t * 60 + minute t < hour e * 60 + minute e)"
    using assms c by (simp add: isTimeInWindow_def Let_def)
  have "start w = end' w \<Longrightarrow> crossesMidnight w = Inr True"
    using assms(1,2) c by simp
  with c i show ?thesis by blast
qed

theorem C4_time_window_witness:
  "parseTime ''18:00'' = Inr \<lparr>hour = 18, minute = 0\<rparr>
   \<and> parseTime ''08:00'' = Inr \<lparr>hour = 8, minute = 0\<rparr>
   \<and> parseTime ''9:05'' = Inr \<lparr>hour = 9, minute = 5\<rparr>
   \<and> parseTime ''17:30'' = Inr \<lparr>hour = 17, minute = 30\<rparr>
   \<and> parseTime ''23:59'' = Inr \<lparr>hour = 23, minute = 59\<rparr>
   \<and> crossesMidnight \<lparr>start = ''18:00'', end' = ''08:00''\<rparr> = Inr True
   \<and> isTimeInWindow ''23:59'' \<lparr>start = ''18:00'', end' = ''08:00''\<rparr> = Inr True
   \<and> isTimeInWindow ''9:05'' \<lparr>start = ''18:00'', end' = ''08:00''\<rparr> = Inr False
   \<and> isTimeInWindow ''08:00'' \<lparr>start = ''18:00'', end' = ''08:00''\<rparr> = Inr False
   \<and> isTimeInWindow ''18:00'' \<lparr>start = ''18:00'', end' = ''08:00''\<rparr> = Inr True
   \<and> crossesMidnight \<lparr>start = ''08:00'', end' = ''17:30''\<rparr> = Inr False
   \<and> isTimeInWindow ''9:05'' \<lparr>start = ''08:00'', end' = ''17:30''\<rparr> = Inr True
   \<and> isTimeInWindow ''08:00'' \<lparr>start = ''08:00'', end' = ''17:30''\<rparr> = Inr True
   \<and> isTimeInWindow ''17:30'' \<lparr>start = ''08:00'', end' = ''17:30''\<rparr> = Inr False
   \<and> isTimeInWindow ''23:59'' \<lparr>start = ''08:00'', end' = ''17:30''\<rparr> = Inr False
   \<and> crossesMidnight \<lparr>start = ''17:30'', end' = ''17:30''\<rparr> = Inr True
   \<and> isTimeInWindow ''9:05'' \<lparr>start = ''17:30'', end' = ''17:30''\<rparr> = Inr True"
proof -
  have p18: "parseTime ''18:00'' = Inr \<lparr>hour = 18, minute = 0\<rparr>" by code_simp
  have p08: "parseTime ''08:00'' = Inr \<lparr>hour = 8, minute = 0\<rparr>" by code_simp
  have p09: "parseTime ''9:05'' = Inr \<lparr>hour = 9, minute = 5\<rparr>" by code_simp
  have p17: "parseTime ''17:30'' = Inr \<lparr>hour = 17, minute = 30\<rparr>" by code_simp
  have p23: "parseTime ''23:59'' = Inr \<lparr>hour = 23, minute = 59\<rparr>" by code_simp
  note night = C4_time_window [where w = "\<lparr>start = ''18:00'', end' = ''08:00''\<rparr>"
      and s = "\<lparr>hour = 18, minute = 0\<rparr>" and e = "\<lparr>hour = 8, minute = 0\<rparr>"]
  note day = C4_time_window [where w = "\<lparr>start = ''08:00'', end' = ''17:30''\<rparr>"
      and s = "\<lparr>hour = 8, minute = 0\<rparr>" and e = "\<lparr>hour = 17, minute = 30\<rparr>"]
  note full = C4_time_window [where w = "\<lparr>start = ''17:30'', end' = ''17:30''\<rparr>"
      and s = "\<lparr>hour = 17, minute = 30\<rparr>" and e = "\<lparr>hour = 17, minute = 30\<rparr>"]
  have n1: "crossesMidnight \<lparr>start = ''18:00'', end' = ''08:00''\<rparr> = Inr True"
    using night [OF _ _ p23] p18 p08 by simp
  have n2: "isTimeInWindow ''23:59'' \<lparr>start = ''18:00'', end' = ''08:00''\<rparr> = Inr True"
    using night [OF _ _ p23] p18 p08 by simp
  have n3: "isTimeInWindow ''9:05'' \<lparr>start = ''18:00'', end' = ''08:00''\<rparr> = Inr False"
    using night [OF _ _ p09] p18 p08 by simp
  have n4: "isTimeInWindow ''08:00'' \<lparr>start = ''18:00'', end' = ''08:00''\<rparr> = Inr False"
    using night [OF _ _ p08] p18 p08 by simp
  have n5: "isTimeInWindow ''18:00'' \<lparr>start = ''18:00'', end' = ''08:00''\<rparr> = Inr True"
    using night [OF _ _ p18] p18 p08 by simp
  have d1: "crossesMidnight \<lparr>start = ''08:00'', end' = ''17:30''\<rparr> = Inr False"
    using day [OF _ _ p09] p08 p17 by simp
  have d2: "isTimeInWindow ''9:05'' \<lparr>start = ''08:00'', end' = ''17:30''\<rparr> = Inr True"
    using day [OF _ _ p09] p08 p17 by simp
  have d3: "isTimeInWindow ''08:00'' \<lparr>start = ''08:00'', end' = ''17:30''\<rparr> = Inr True"
    using day [OF _ _ p08] p08 p17 by simp
  have d4: "isTimeInWindow ''17:30'' \<lparr>start = ''08:00'', end' = ''17:30''\<rparr> = Inr False"
    using day [OF _ _ p17] p08 p17 by simp
  have d5: "isTimeInWindow ''23:59'' \<lparr>start = ''08:00'', end' = ''17:30''\<rparr> = Inr False"
    using day [OF _ _ p23] p08 p17 by simp
  have f1: "crossesMidnight \<lparr>start = ''17:30'', end' = ''17:30''\<rparr> = Inr True"
    using full [OF _ _ p09] p17 by simp
  have f2: "isTimeInWindow ''9:05'' \<lparr>start = ''17:30'', end' = ''17:30''\<rparr> = Inr True"
    using full [OF _ _ p09] p17 by simp
  show ?thesis
    using p18 p08 p09 p17 p23 n1 n2 n3 n4 n5 d1 d2 d3 d4 d5 f1 f2 by (simp only: simp_thms)
qed

section \<open>Properties of the recurrence grammar\<close>

text \<open>
  Claim C1. The claim says that \<open>weekdays\<close> and a comma-joined list of weekday names
  parse to a weekly pattern with a set of days. \<open>parseRecurrence\<close> has no branch for
  either and the pattern has no field for a set of days: both words are no recurrence
  keyword and the result is absent, whatever the reference date and the clock.
\<close>

theorem C1_weekdays_absent:
  "parseRecurrence [''weekdays'', ''task''] referenceDate now = Inr None
   \<and> parseRecurrence [''Fri,Mon,Wed'', ''task''] referenceDate now = Inr None"
  by (simp add: parseRecurrence_def toLowerCase_def lowerChar_def SHORTHAND_def Let_def)

end
